theory Spec2Isabelle
  imports Main
begin

section \<open>Data model\<close>

text \<open>
  The route compiler of \<^verbatim>\<open>part_001\<close> works on values of the Effect platform
  (\<^verbatim>\<open>Schema\<close>, \<^verbatim>\<open>Headers\<close>, \<^verbatim>\<open>HttpBody\<close>, \<^verbatim>\<open>HttpClientResponse\<close>). Those libraries are
  not part of the repository, so their values are type parameters:
  \<^item> \<open>'v\<close>: JavaScript values (\<^verbatim>\<open>any\<close>/\<^verbatim>\<open>unknown\<close>): call parameters, JSON, decoded
    values, user error values;
  \<^item> \<open>'x\<close>: the error values raised by the libraries;
  \<^item> \<open>'s\<close>: schemas (\<^verbatim>\<open>Schema.Schema<any>\<close>);
  \<^item> \<open>'h\<close>: header sets (\<^verbatim>\<open>Headers.Headers\<close>);
  \<^item> \<open>'b\<close>: request bodies (\<^verbatim>\<open>HttpBody\<close>).
  An \<^verbatim>\<open>Effect<A, E, R>\<close> is modelled by its outcome, a value of \<open>E + A\<close> with
  \<open>Inl\<close> for the failure; \<^verbatim>\<open>yield*\<close> is the case distinction on that outcome.
  Union types are datatypes with one constructor per member. The source tells the
  members apart with \<^verbatim>\<open>typeof x === "function"\<close>. On a string and on a
  \<^verbatim>\<open>Headers\<close> object the test is false, so for the URL and the headers it is the test
  for the function constructor. A schema of the library is a class, and \<^verbatim>\<open>typeof\<close> of a
  class is \<^verbatim>\<open>"function"\<close>, so for the response and the error descriptor the test holds
  of both members (see \<open>typeof_Schema\<close>).
\<close>

datatype 'v UrlFunction =
    UrlString string
  | UrlFn "'v \<Rightarrow> string"

datatype ('v, 'h) HeadersFunction =
    HeadersValue 'h
  | HeadersFn "'v \<Rightarrow> 'v + 'h"

record ('v, 'x, 'h) HttpClientResponse =
  status :: int
  resp_headers :: 'h
  json :: "'x + 'v"

datatype ('v, 'x, 's, 'h) OutputFunction =
    OutputSchema 's
  | OutputFn "('v, 'x, 'h) HttpClientResponse \<Rightarrow> 'v + 'v"

datatype ('v, 'x, 's, 'h) ErrorFunction =
    ErrorSchema 's
  | ErrorFn "('v, 'x, 'h) HttpClientResponse \<Rightarrow> 'v"

text \<open>
  \<^verbatim>\<open>class Route\<close>: every optional field is \<open>None\<close> when the property reads as
  \<^verbatim>\<open>undefined\<close>. The field \<open>http_method\<close> is the property \<^verbatim>\<open>method\<close>.
\<close>

record ('v, 'x, 's, 'h) Route =
  url :: "'v UrlFunction"
  http_method :: string
  headers :: "('v, 'h) HeadersFunction option"
  body :: "'s option"
  response :: "('v, 'x, 's, 'h) OutputFunction option"
  error :: "('v, 'x, 's, 'h) ErrorFunction option"
  filterStatusOk :: "bool option"

text \<open>
  \<^verbatim>\<open>MakerParams\<close>, the parameter bag of a compiled route. A field is \<open>None\<close> when
  the key is not in the object (\<^verbatim>\<open>"url" in params\<close> is false); the bag itself is
  an \<open>option\<close>, \<open>None\<close> when the route is called without argument.
\<close>

record 'v MakerParams =
  p_url :: "'v option"
  p_headers :: "'v option"
  p_body :: "'v option"

text \<open>
  The request handed to the HTTP client: a method, a URL string, a header set and a
  body. The type of the header set is a parameter: for the route compiler it is
  \<open>'h option\<close>, \<open>None\<close> for the empty header set of a fresh request and \<open>Some hs\<close>
  once the header set \<open>hs\<close> was merged onto it; for the request rewriter it is a map
  from header names to values.
\<close>

record ('u, 'hh, 'b) HttpClientRequest =
  req_method :: string
  req_url :: 'u
  req_headers :: 'hh
  req_body :: "'b option"

type_synonym ('h, 'b) MakerRequest = "(string, 'h option, 'b) HttpClientRequest"

datatype ('x, 'r) HttpClientError =
    RequestError 'x
  | StatusCodeError 'r

text \<open>
  The exceptions that the code of the compiled callable can throw: a \<^verbatim>\<open>TypeError\<close> for
  calling a class constructor without \<^verbatim>\<open>new\<close>, and a \<^verbatim>\<open>TypeError\<close> for an invalid
  URL. An exception thrown inside \<^verbatim>\<open>Effect.gen\<close> makes the effect die with a defect.
\<close>

datatype Thrown =
    TypeError_ClassConstructor
  | TypeError_InvalidURL

text \<open>
  How a compiled route ends when it does not succeed. The constructors record where
  the failure was raised: by the headers function, by \<^verbatim>\<open>HttpBody.json\<close>, by the HTTP
  client, by reading \<^verbatim>\<open>response.json\<close>, by \<^verbatim>\<open>Schema.decodeUnknown\<close> (the spec's
  DecodeError), by \<^verbatim>\<open>Effect.fail\<close> in \<^verbatim>\<open>getError\<close> (the business error), or by the
  response function. \<open>Defect\<close> is not a failure of the error channel: the effect died
  with a thrown exception.
\<close>

datatype ('v, 'x, 'h) Failure =
    HeadersFailure 'v
  | HttpBodyError 'x
  | TransportFailure "('x, ('v, 'x, 'h) HttpClientResponse) HttpClientError"
  | ResponseBodyError 'x
  | DecodeError 'x
  | ErrorValue 'v
  | OutputFailure 'v
  | Defect Thrown

text \<open>What a compiled route succeeds with: the raw response, or a value.\<close>

datatype ('v, 'x, 'h) Output =
    RawResponse "('v, 'x, 'h) HttpClientResponse"
  | Value 'v

text \<open>
  The imported library functions and the \<^verbatim>\<open>HttpClient.HttpClient\<close> service that the
  compiled route uses. \<^verbatim>\<open>Schema.encode(schema)(value)\<close> returns an effect, and the
  source hands that effect itself to \<^verbatim>\<open>HttpBody.json\<close> (see \<open>make_bodyJson\<close>), so
  the argument of \<open>HttpBody_json\<close> is an effect.
\<close>

record ('v, 'x, 's, 'h, 'b) Platform =
  Schema_encode :: "'s \<Rightarrow> 'v \<Rightarrow> 'x + 'v"
  Schema_parseJson :: "'s \<Rightarrow> 's"
  Schema_decodeUnknown :: "'s \<Rightarrow> 'v \<Rightarrow> 'x + 'v"
  HttpBody_json :: "'x + 'v \<Rightarrow> 'x + 'b"
  HttpClient_execute :: "('h, 'b) MakerRequest \<Rightarrow>
     ('x, ('v, 'x, 'h) HttpClientResponse) HttpClientError + ('v, 'x, 'h) HttpClientResponse"


text \<open>
  The argument of \<^verbatim>\<open>get\<close>, \<^verbatim>\<open>post\<close>, \<^verbatim>\<open>put\<close> and \<^verbatim>\<open>del\<close> is an object literal of
  type \<^verbatim>\<open>Omit<Route<...>, "method" | "_tag">\<close>. The client spreads it over its own
  defaults, and an object spread copies every own key of the later object, also a key
  whose value is \<^verbatim>\<open>undefined\<close>. For the two fields the client has defaults for, the
  model therefore keeps key and value apart: \<open>None\<close> is "no such key",
  \<open>Some None\<close> is "key present, value \<^verbatim>\<open>undefined\<close>", \<open>Some (Some d)\<close> is a descriptor.
  For the other optional fields an absent key and an \<^verbatim>\<open>undefined\<close> value read the same.
  The type of the argument of \<^verbatim>\<open>get\<close> has no \<^verbatim>\<open>body\<close> key, so a well-typed caller of
  \<^verbatim>\<open>get\<close> has \<open>spec_body = None\<close>.
\<close>

record ('v, 'x, 's, 'h) MakerSpec =
  spec_url :: "'v UrlFunction"
  spec_headers :: "('v, 'h) HeadersFunction option option"
  spec_body :: "'s option"
  spec_response :: "('v, 'x, 's, 'h) OutputFunction option"
  spec_error :: "('v, 'x, 's, 'h) ErrorFunction option option"
  spec_filterStatusOk :: "bool option"

text \<open>\<^verbatim>\<open>class Client\<close> (part_001, lines 875-1243; src/common.ts, lines 37-184).\<close>

record ('v, 'x, 's, 'h) Client =
  client_headers :: "('v, 'h) HeadersFunction option"
  client_error :: "('v, 'x, 's, 'h) ErrorFunction option"

text \<open>
  \<^verbatim>\<open>class Config\<close> (part_001, lines 1245-1248; src/common.ts, lines 200-203), read by
  the request rewriter. There a request has a string URL and a map from header names to
  values.
\<close>

record Config =
  config_url :: string
  accessToken :: "string option"

type_synonym 'b Request = "(string, string \<rightharpoonup> string, 'b) HttpClientRequest"

section \<open>Request constructors of the platform\<close>

text \<open>
  Modelled from the spec: \<^verbatim>\<open>HttpClientRequest.make\<close>, \<^verbatim>\<open>setHeaders\<close> and \<^verbatim>\<open>setBody\<close>
  belong to the platform library, which is not in the repository. Section 4.2 of the
  spec: the request is "method + resolved URL, with resolved headers merged in (headers
  descriptor result overwrites/merges onto an empty header set)", and the "resolved body
  attached as a JSON payload when present". A fresh request has a string URL, no
  headers and no body. The compiled route hands these constructors whatever its
  descriptors resolved to, which can be a function value (see \<open>make_url\<close> and
  \<open>getHeaders\<close>): the constructor of the request throws "Invalid URL" when the URL is not
  a string, and \<open>setHeaders\<close> copies the entries of a header set and finds none in a
  function. The compiled route calls \<open>setHeaders\<close> at most once, on a fresh request.
\<close>

definition HttpClientRequest_make :: "string \<Rightarrow> 'v UrlFunction \<Rightarrow> Thrown + ('h, 'b) MakerRequest" where
  "HttpClientRequest_make m u =
     (case u of
        UrlString s \<Rightarrow> Inr \<lparr>req_method = m, req_url = s, req_headers = None, req_body = None\<rparr>
      | UrlFn f \<Rightarrow> Inl TypeError_InvalidURL)"

definition setHeaders :: "('h, 'b) MakerRequest \<Rightarrow> ('v, 'h) HeadersFunction \<Rightarrow> ('h, 'b) MakerRequest" where
  "setHeaders req input =
     (case input of
        HeadersValue hs \<Rightarrow> req\<lparr>req_headers := Some hs\<rparr>
      | HeadersFn f \<Rightarrow> req)"

definition setBody :: "('u, 'hh, 'b) HttpClientRequest \<Rightarrow> 'b \<Rightarrow> ('u, 'hh, 'b) HttpClientRequest" where
  "setBody req b = req\<lparr>req_body := Some b\<rparr>"

text \<open>
  Modelled from the spec: \<^verbatim>\<open>HttpClient.filterStatusOk\<close> belongs to the platform
  library. Section 4.3 of the spec: with the filter, "a non-2xx response is treated as a
  transport-level failure before this component runs".
\<close>

definition HttpClient_filterStatusOk ::
  "('q \<Rightarrow> ('x, ('v, 'x, 'h) HttpClientResponse) HttpClientError + ('v, 'x, 'h) HttpClientResponse) \<Rightarrow>
   ('q \<Rightarrow> ('x, ('v, 'x, 'h) HttpClientResponse) HttpClientError + ('v, 'x, 'h) HttpClientResponse)" where
  "HttpClient_filterStatusOk client req =
     (case client req of
        Inl e \<Rightarrow> Inl e
      | Inr res \<Rightarrow> if 200 \<le> status res \<and> status res < 300 then Inr res else Inl (StatusCodeError res))"

section \<open>The route compiler\<close>

text \<open>
  \<^verbatim>\<open>getHeaders\<close> (part_001, lines 339-351). A function descriptor is called only when
  the parameter bag exists and has a \<^verbatim>\<open>headers\<close> key; otherwise the descriptor value
  itself is returned, also when it is a function.
\<close>

definition getHeaders ::
  "('v, 'x, 's, 'h) Route \<Rightarrow> 'v MakerParams option \<Rightarrow>
   ('v, 'x, 'h) Failure + ('v, 'h) HeadersFunction option" where
  "getHeaders spec params =
     (case headers spec of
        None \<Rightarrow> Inr None
      | Some (HeadersFn f) \<Rightarrow>
          (case params of
             None \<Rightarrow> Inr (Some (HeadersFn f))
           | Some p \<Rightarrow>
               (case p_headers p of
                  None \<Rightarrow> Inr (Some (HeadersFn f))
                | Some a \<Rightarrow>
                    (case f a of
                       Inl e \<Rightarrow> Inl (HeadersFailure e)
                     | Inr hs \<Rightarrow> Inr (Some (HeadersValue hs)))))
      | Some (HeadersValue hs) \<Rightarrow> Inr (Some (HeadersValue hs)))"

text \<open>
  \<^verbatim>\<open>parseResponse\<close> (lines 353-361): read \<^verbatim>\<open>response.json\<close>, then
  \<^verbatim>\<open>Schema.parseJson(schema).pipe(Schema.decodeUnknown)(json)\<close>.
\<close>

definition parseResponse ::
  "('v, 'x, 's, 'h, 'b) Platform \<Rightarrow> 's \<Rightarrow> ('v, 'x, 'h) HttpClientResponse \<Rightarrow>
   ('v, 'x, 'h) Failure + 'v" where
  "parseResponse env schema res =
     (case json res of
        Inl e \<Rightarrow> Inl (ResponseBodyError e)
      | Inr j \<Rightarrow>
          (case Schema_decodeUnknown env (Schema_parseJson env schema) j of
             Inl e \<Rightarrow> Inl (DecodeError e)
           | Inr a \<Rightarrow> Inr a))"

text \<open>
  What \<^verbatim>\<open>typeof\<close> answers on a schema. The schemas of the library are classes
  (\<^verbatim>\<open>Schema.Struct({...})\<close> and \<^verbatim>\<open>Schema.String\<close> are class constructors), and
  \<^verbatim>\<open>typeof\<close> of a class is \<^verbatim>\<open>"function"\<close>. The newer code of the repository does not
  use \<^verbatim>\<open>typeof\<close> here: it tests \<^verbatim>\<open>S.isSchema(error)\<close> first (part_000, line 108).
\<close>

definition typeof_Schema :: string where
  "typeof_Schema = ''function''"

text \<open>
  \<^verbatim>\<open>getResponse\<close> (lines 363-377):
  \<^verbatim>\<open>if (!getter) return response;
  if (typeof getter === "function") return yield* getter(response);
  return yield* parseResponse(getter, response);\<close>
  The second test holds of a function and of a schema. Calling a schema, a class, as a
  function throws a \<^verbatim>\<open>TypeError\<close>, so the third line is not reached.
\<close>

definition getResponse ::
  "('v, 'x, 's, 'h, 'b) Platform \<Rightarrow> ('v, 'x, 's, 'h) OutputFunction option \<Rightarrow>
   ('v, 'x, 'h) HttpClientResponse \<Rightarrow> ('v, 'x, 'h) Failure + ('v, 'x, 'h) Output" where
  "getResponse env getter res =
     (case getter of
        None \<Rightarrow> Inr (RawResponse res)
      | Some (OutputFn f) \<Rightarrow>
          (case f res of
             Inl e \<Rightarrow> Inl (OutputFailure e)
           | Inr a \<Rightarrow> Inr (Value a))
      | Some (OutputSchema schema) \<Rightarrow>
          if typeof_Schema = ''function'' then Inl (Defect TypeError_ClassConstructor)
          else (case parseResponse env schema res of
                  Inl e \<Rightarrow> Inl e
                | Inr a \<Rightarrow> Inr (Value a)))"

text \<open>
  \<^verbatim>\<open>getError\<close> (lines 386-401):
  \<^verbatim>\<open>if (typeof getter === "function") return yield* Effect.fail(getter(response));
  const error = yield* parseResponse(getter, response);
  yield* Effect.fail(error);\<close>
  As in \<open>getResponse\<close>, the test holds of a schema too, and calling the schema throws
  before \<^verbatim>\<open>Effect.fail\<close> is reached. The declared success type is \<^verbatim>\<open>never\<close>; the model
  gives it the success type \<open>unit\<close>, the value of a generator that runs to its end, and
  that it never succeeds is a lemma, not a typing.
\<close>

definition getError ::
  "('v, 'x, 's, 'h, 'b) Platform \<Rightarrow> ('v, 'x, 's, 'h) ErrorFunction \<Rightarrow>
   ('v, 'x, 'h) HttpClientResponse \<Rightarrow> ('v, 'x, 'h) Failure + unit" where
  "getError env getter res =
     (case getter of
        ErrorFn f \<Rightarrow> Inl (ErrorValue (f res))
      | ErrorSchema schema \<Rightarrow>
          if typeof_Schema = ''function'' then Inl (Defect TypeError_ClassConstructor)
          else (case parseResponse env schema res of
                  Inl e \<Rightarrow> Inl e
                | Inr err \<Rightarrow> Inl (ErrorValue err)))"

text \<open>
  The local \<^verbatim>\<open>url\<close> of the compiled callable (lines 405-408): the function descriptor
  is called only when the bag exists and has a \<^verbatim>\<open>url\<close> key; otherwise
  \<^verbatim>\<open>spec.url as string\<close> is the descriptor value itself.
\<close>

definition make_url :: "('v, 'x, 's, 'h) Route \<Rightarrow> 'v MakerParams option \<Rightarrow> 'v UrlFunction" where
  "make_url spec params =
     (case url spec of
        UrlFn f \<Rightarrow>
          (case params of
             None \<Rightarrow> UrlFn f
           | Some p \<Rightarrow> (case p_url p of None \<Rightarrow> UrlFn f | Some a \<Rightarrow> UrlString (f a)))
      | UrlString u \<Rightarrow> UrlString u)"

text \<open>
  The local \<^verbatim>\<open>bodyJson\<close> (lines 412-415):
  \<^verbatim>\<open>spec.body && params && "body" in params
     ? yield* Schema.encode(spec.body)(params.body).pipe(HttpBody.json) : undefined\<close>.
  In this file \<^verbatim>\<open>x.pipe(f)\<close> applies \<^verbatim>\<open>f\<close> to \<^verbatim>\<open>x\<close> (lines 417-420 pipe a request
  through two functions of the request), so \<^verbatim>\<open>HttpBody.json\<close> is applied to the effect
  that \<^verbatim>\<open>Schema.encode\<close> returned, and only the effect of \<^verbatim>\<open>HttpBody.json\<close> is run.
\<close>

definition make_bodyJson ::
  "('v, 'x, 's, 'h, 'b) Platform \<Rightarrow> ('v, 'x, 's, 'h) Route \<Rightarrow> 'v MakerParams option \<Rightarrow>
   ('v, 'x, 'h) Failure + 'b option" where
  "make_bodyJson env spec params =
     (case body spec of
        None \<Rightarrow> Inr None
      | Some schema \<Rightarrow>
          (case params of
             None \<Rightarrow> Inr None
           | Some p \<Rightarrow>
               (case p_body p of
                  None \<Rightarrow> Inr None
                | Some a \<Rightarrow>
                    (case HttpBody_json env (Schema_encode env schema a) of
                       Inl e \<Rightarrow> Inl (HttpBodyError e)
                     | Inr b \<Rightarrow> Inr (Some b)))))"

text \<open>
  The local \<^verbatim>\<open>request\<close> (lines 403-420): URL, then headers, then body, then the
  request built from the three:
  \<^verbatim>\<open>HttpClientRequest.make(spec.method)(url).pipe(
     (req) => (headers ? HttpClientRequest.setHeaders(req, headers) : req),
     (req) => (bodyJson ? HttpClientRequest.setBody(req, bodyJson) : req))\<close>.
  When the constructor throws, the callable dies and the two functions are not run.
\<close>

definition make_request ::
  "('v, 'x, 's, 'h, 'b) Platform \<Rightarrow> ('v, 'x, 's, 'h) Route \<Rightarrow> 'v MakerParams option \<Rightarrow>
   ('v, 'x, 'h) Failure + ('h, 'b) MakerRequest" where
  "make_request env spec params =
     (let u = make_url spec params in
      case getHeaders spec params of
        Inl e \<Rightarrow> Inl e
      | Inr hs \<Rightarrow>
          (case make_bodyJson env spec params of
             Inl e \<Rightarrow> Inl e
           | Inr bodyJson \<Rightarrow>
               (case HttpClientRequest_make (http_method spec) u of
                  Inl thrown \<Rightarrow> Inl (Defect thrown)
                | Inr fresh \<Rightarrow>
                    Inr ((\<lambda>req. case bodyJson of Some b \<Rightarrow> setBody req b | None \<Rightarrow> req)
                          ((\<lambda>req. case hs of Some h \<Rightarrow> setHeaders req h | None \<Rightarrow> req)
                            fresh)))))"

text \<open>
  The local \<^verbatim>\<open>client\<close> (lines 422-424):
  \<^verbatim>\<open>!spec.filterStatusOk ? client : HttpClient.filterStatusOk(client)\<close>.
  \<^verbatim>\<open>!spec.filterStatusOk\<close> holds when the flag is absent or false.
\<close>

definition make_client ::
  "('v, 'x, 's, 'h, 'b) Platform \<Rightarrow> ('v, 'x, 's, 'h) Route \<Rightarrow> ('h, 'b) MakerRequest \<Rightarrow>
   ('x, ('v, 'x, 'h) HttpClientResponse) HttpClientError + ('v, 'x, 'h) HttpClientResponse" where
  "make_client env spec =
     (if filterStatusOk spec \<noteq> Some True then HttpClient_execute env
      else HttpClient_filterStatusOk (HttpClient_execute env))"

text \<open>
  \<^verbatim>\<open>make\<close> (lines 331-437): the compiled callable. After the request and the client,
  lines 426-436: execute, then
  \<^verbatim>\<open>if (!spec.filterStatusOk && spec.error && (response.status < 200 || response.status >= 300))
     yield* getError(spec.error, response);
  return yield* getResponse(spec.response, response);\<close>
\<close>

definition make ::
  "('v, 'x, 's, 'h, 'b) Platform \<Rightarrow> ('v, 'x, 's, 'h) Route \<Rightarrow> 'v MakerParams option \<Rightarrow>
   ('v, 'x, 'h) Failure + ('v, 'x, 'h) Output" where
  "make env spec params =
     (case make_request env spec params of
        Inl e \<Rightarrow> Inl e
      | Inr request \<Rightarrow>
          (case make_client env spec request of
             Inl e \<Rightarrow> Inl (TransportFailure e)
           | Inr res \<Rightarrow>
               if filterStatusOk spec \<noteq> Some True \<and> error spec \<noteq> None \<and>
                  (status res < 200 \<or> status res \<ge> 300)
               then (case getError env (the (error spec)) res of
                       Inl e \<Rightarrow> Inl e
                     | Inr _ \<Rightarrow> getResponse env (response spec) res)
               else getResponse env (response spec) res))"

section \<open>Method constructors and the client\<close>

text \<open>
  The value of property \<^verbatim>\<open>k\<close> of \<^verbatim>\<open>{ k: d, ...spec }\<close>: the value under the key of
  \<^verbatim>\<open>spec\<close> when it has the key, \<^verbatim>\<open>d\<close> otherwise.
\<close>

definition spread :: "'a option \<Rightarrow> 'a option option \<Rightarrow> 'a option" where
  "spread d k = (case k of None \<Rightarrow> d | Some a \<Rightarrow> a)"

text \<open>\<^verbatim>\<open>new Route({ ...spec, method: m })\<close> (lines 518-750).\<close>

definition new_Route :: "string \<Rightarrow> ('v, 'x, 's, 'h) MakerSpec \<Rightarrow> ('v, 'x, 's, 'h) Route" where
  "new_Route m spec =
     \<lparr>url = spec_url spec, http_method = m, headers = spread None (spec_headers spec),
      body = spec_body spec, response = spec_response spec,
      error = spread None (spec_error spec), filterStatusOk = spec_filterStatusOk spec\<rparr>"

definition get ::
  "('v, 'x, 's, 'h, 'b) Platform \<Rightarrow> ('v, 'x, 's, 'h) MakerSpec \<Rightarrow> 'v MakerParams option \<Rightarrow>
   ('v, 'x, 'h) Failure + ('v, 'x, 'h) Output" where
  "get env spec = make env (new_Route ''GET'' spec)"

definition post ::
  "('v, 'x, 's, 'h, 'b) Platform \<Rightarrow> ('v, 'x, 's, 'h) MakerSpec \<Rightarrow> 'v MakerParams option \<Rightarrow>
   ('v, 'x, 'h) Failure + ('v, 'x, 'h) Output" where
  "post env spec = make env (new_Route ''POST'' spec)"

definition put ::
  "('v, 'x, 's, 'h, 'b) Platform \<Rightarrow> ('v, 'x, 's, 'h) MakerSpec \<Rightarrow> 'v MakerParams option \<Rightarrow>
   ('v, 'x, 'h) Failure + ('v, 'x, 'h) Output" where
  "put env spec = make env (new_Route ''PUT'' spec)"

definition del ::
  "('v, 'x, 's, 'h, 'b) Platform \<Rightarrow> ('v, 'x, 's, 'h) MakerSpec \<Rightarrow> 'v MakerParams option \<Rightarrow>
   ('v, 'x, 'h) Failure + ('v, 'x, 'h) Output" where
  "del env spec = make env (new_Route ''DELETE'' spec)"

text \<open>
  \<^verbatim>\<open>new Route({ headers: this.headers, error: this.error, ...spec, method: m })\<close>, the
  route that each client method compiles (lines 963-970 for \<^verbatim>\<open>get\<close>). In src/common.ts
  the same object, without the method, is the argument of \<^verbatim>\<open>Make.get\<close>.
\<close>

definition Client_Route ::
  "('v, 'x, 's, 'h) Client \<Rightarrow> string \<Rightarrow> ('v, 'x, 's, 'h) MakerSpec \<Rightarrow> ('v, 'x, 's, 'h) Route" where
  "Client_Route c m spec =
     \<lparr>url = spec_url spec, http_method = m, headers = spread (client_headers c) (spec_headers spec),
      body = spec_body spec, response = spec_response spec,
      error = spread (client_error c) (spec_error spec),
      filterStatusOk = spec_filterStatusOk spec\<rparr>"

definition Client_get ::
  "('v, 'x, 's, 'h, 'b) Platform \<Rightarrow> ('v, 'x, 's, 'h) Client \<Rightarrow> ('v, 'x, 's, 'h) MakerSpec \<Rightarrow>
   'v MakerParams option \<Rightarrow> ('v, 'x, 'h) Failure + ('v, 'x, 'h) Output" where
  "Client_get env c spec = make env (Client_Route c ''GET'' spec)"

definition Client_post ::
  "('v, 'x, 's, 'h, 'b) Platform \<Rightarrow> ('v, 'x, 's, 'h) Client \<Rightarrow> ('v, 'x, 's, 'h) MakerSpec \<Rightarrow>
   'v MakerParams option \<Rightarrow> ('v, 'x, 'h) Failure + ('v, 'x, 'h) Output" where
  "Client_post env c spec = make env (Client_Route c ''POST'' spec)"

definition Client_put ::
  "('v, 'x, 's, 'h, 'b) Platform \<Rightarrow> ('v, 'x, 's, 'h) Client \<Rightarrow> ('v, 'x, 's, 'h) MakerSpec \<Rightarrow>
   'v MakerParams option \<Rightarrow> ('v, 'x, 'h) Failure + ('v, 'x, 'h) Output" where
  "Client_put env c spec = make env (Client_Route c ''PUT'' spec)"

definition Client_del ::
  "('v, 'x, 's, 'h, 'b) Platform \<Rightarrow> ('v, 'x, 's, 'h) Client \<Rightarrow> ('v, 'x, 's, 'h) MakerSpec \<Rightarrow>
   'v MakerParams option \<Rightarrow> ('v, 'x, 'h) Failure + ('v, 'x, 'h) Output" where
  "Client_del env c spec = make env (Client_Route c ''DELETE'' spec)"

section \<open>The request rewriter\<close>

text \<open>\<^verbatim>\<open>String.prototype.startsWith\<close>, for a one-character prefix.\<close>

definition startsWith :: "string \<Rightarrow> char \<Rightarrow> bool" where
  "startsWith s c = (case s of [] \<Rightarrow> False | a # _ \<Rightarrow> a = c)"

text \<open>
  Modelled from the spec: \<^verbatim>\<open>HttpClientRequest.setUrl\<close>, \<^verbatim>\<open>HttpClientRequest.bearerToken\<close>
  and \<^verbatim>\<open>HttpClient.mapRequestInput\<close> belong to the platform library. Section 6 of the
  spec: the rewriter "transforms every outgoing request", it "prepend[s] the configured
  base URL" and "set[s] an \<^verbatim>\<open>Authorization: Bearer <token>\<close> header".
  \<open>mapRequestInput f\<close> rewrites the request with \<open>f\<close> before the client it wraps sees it.
\<close>

definition setUrl :: "string \<Rightarrow> 'b Request \<Rightarrow> 'b Request" where
  "setUrl u req = req\<lparr>req_url := u\<rparr>"

definition bearerToken :: "string \<Rightarrow> 'b Request \<Rightarrow> 'b Request" where
  "bearerToken token req =
     req\<lparr>req_headers := (req_headers req)(''Authorization'' \<mapsto> ''Bearer '' @ token)\<rparr>"

definition mapRequestInput :: "('q \<Rightarrow> 'q) \<Rightarrow> ('q \<Rightarrow> 'r) \<Rightarrow> ('q \<Rightarrow> 'r)" where
  "mapRequestInput f client = (\<lambda>req. client (f req))"

text \<open>
  The first rule of \<^verbatim>\<open>layer\<close> (lines 1318-1322):
  \<^verbatim>\<open>req.url.startsWith("/") ? req.pipe(HttpClientRequest.setUrl(config.url + req.url)) : req\<close>.
\<close>

definition baseUrlRule :: "Config \<Rightarrow> 'b Request \<Rightarrow> 'b Request" where
  "baseUrlRule config req =
     (if startsWith (req_url req) CHR ''/'' then setUrl (config_url config @ req_url req) req
      else req)"

text \<open>
  The second rule (lines 1324-1328):
  \<^verbatim>\<open>config.accessToken ? req.pipe(HttpClientRequest.bearerToken(config.accessToken)) : req\<close>.
  The condition is the truthiness of a \<^verbatim>\<open>string | undefined\<close>: false for \<^verbatim>\<open>undefined\<close>
  and for the empty string.
\<close>

definition bearerTokenRule :: "Config \<Rightarrow> 'b Request \<Rightarrow> 'b Request" where
  "bearerTokenRule config req =
     (case accessToken config of
        None \<Rightarrow> req
      | Some token \<Rightarrow> if token \<noteq> [] then bearerToken token req else req)"

text \<open>
  \<^verbatim>\<open>layer\<close>: the client that the layer provides, built from the client it wraps, and the
  rewriting that a request undergoes before that client sees it.
\<close>

definition layer :: "Config \<Rightarrow> ('b Request \<Rightarrow> 'r) \<Rightarrow> ('b Request \<Rightarrow> 'r)" where
  "layer config client =
     mapRequestInput (bearerTokenRule config) (mapRequestInput (baseUrlRule config) client)"

definition rewrite :: "Config \<Rightarrow> 'b Request \<Rightarrow> 'b Request" where
  "rewrite config req = baseUrlRule config (bearerTokenRule config req)"


section \<open>A concrete platform\<close>

text \<open>
  A small instance of the type parameters, on which the theorems below are evaluated.
  A value is a number or the JSON text of a value. Schema \<open>Upto n\<close> accepts the numbers
  up to \<open>n\<close>; \<open>ParseJson s\<close>, the result of \<^verbatim>\<open>Schema.parseJson\<close>, accepts the JSON text
  of what \<open>s\<close> accepts and nothing that is already parsed. Library errors are strings,
  and a request body is the value that \<^verbatim>\<open>HttpBody.json\<close> was given (it serialises any
  object it is handed). The HTTP client answers every request with the outcome \<open>r\<close>,
  and the body of a response reads as the parsed number 7.
\<close>

datatype example_value = Num nat | JsonText example_value

datatype example_schema = Upto nat | ParseJson example_schema

fun example_decode :: "example_schema \<Rightarrow> example_value \<Rightarrow> string + example_value" where
  "example_decode (Upto n) (Num a) = (if a \<le> n then Inr (Num a) else Inl ''ParseError'')"
| "example_decode (Upto n) (JsonText v) = Inl ''ParseError''"
| "example_decode (ParseJson s) (JsonText v) = example_decode s v"
| "example_decode (ParseJson s) (Num a) = Inl ''ParseError''"

fun example_encode :: "example_schema \<Rightarrow> example_value \<Rightarrow> string + example_value" where
  "example_encode (Upto n) (Num a) = (if a \<le> n then Inr (Num a) else Inl ''ParseError'')"
| "example_encode (Upto n) (JsonText v) = Inl ''ParseError''"
| "example_encode (ParseJson s) v =
     (case example_encode s v of Inl e \<Rightarrow> Inl e | Inr w \<Rightarrow> Inr (JsonText w))"

type_synonym example_response =
  "(example_value, string, (string \<times> string) list) HttpClientResponse"

definition example_response :: "int \<Rightarrow> example_response" where
  "example_response st = \<lparr>status = st, resp_headers = [], json = Inr (Num 7)\<rparr>"

definition example_platform ::
  "(string, example_response) HttpClientError + example_response \<Rightarrow>
   (example_value, string, example_schema, (string \<times> string) list, string + example_value)
     Platform" where
  "example_platform r =
     \<lparr>Schema_encode = example_encode,
      Schema_parseJson = ParseJson,
      Schema_decodeUnknown = example_decode,
      HttpBody_json = (\<lambda>effect. Inr effect),
      HttpClient_execute = (\<lambda>req. r)\<rparr>"

definition example_route ::
  "(example_value, string, example_schema, (string \<times> string) list) Route" where
  "example_route =
     \<lparr>url = UrlString ''/todos'', http_method = ''POST'', headers = None, body = Some (Upto 5),
      response = Some (OutputSchema (Upto 10)), error = Some (ErrorSchema (Upto 10)),
      filterStatusOk = None\<rparr>"

definition example_request ::
  "((string \<times> string) list, string + example_value) MakerRequest" where
  "example_request =
     \<lparr>req_method = ''POST'', req_url = ''/todos'', req_headers = None, req_body = None\<rparr>"

definition example_params :: "example_value MakerParams" where
  "example_params = \<lparr>p_url = None, p_headers = None, p_body = Some (Num 9)\<rparr>"

definition example_error_fn :: "example_response \<Rightarrow> example_value" where
  "example_error_fn res = Num (nat (status res))"

definition example_output_fn :: "example_response \<Rightarrow> example_value + example_value" where
  "example_output_fn res = Inr (Num (nat (status res)))"

definition example_url_fn :: "example_value \<Rightarrow> string" where
  "example_url_fn v = (if v = Num 42 then ''/todos/42'' else ''/todos'')"

definition example_headers_fn :: "example_value \<Rightarrow> example_value + (string \<times> string) list" where
  "example_headers_fn v = Inr [(''X-Page'', if v = Num 0 then ''first'' else ''next'')]"

definition example_dynamic ::
  "(example_value, string, example_schema, (string \<times> string) list) Route" where
  "example_dynamic =
     \<lparr>url = UrlFn example_url_fn, http_method = ''GET'',
      headers = Some (HeadersFn example_headers_fn),
      body = None, response = None, error = None, filterStatusOk = None\<rparr>"

definition example_client ::
  "(example_value, string, example_schema, (string \<times> string) list) Client" where
  "example_client =
     \<lparr>client_headers = Some (HeadersValue [(''X-API-Version'', ''v1'')]),
      client_error = Some (ErrorSchema (Upto 10))\<rparr>"

definition example_spec ::
  "(example_value, string, example_schema, (string \<times> string) list) MakerSpec" where
  "example_spec =
     \<lparr>spec_url = UrlString ''/todos'', spec_headers = None, spec_body = None,
      spec_response = None, spec_error = None, spec_filterStatusOk = None\<rparr>"

definition example_config :: Config where
  "example_config = \<lparr>config_url = ''https://api.example.com'', accessToken = Some ''ey''\<rparr>"

definition example_relative :: "unit Request" where
  "example_relative =
     \<lparr>req_method = ''GET'', req_url = ''/todos/42'', req_headers = Map.empty, req_body = None\<rparr>"

section \<open>Properties of the route compiler\<close>

lemmas example_defs =
  example_response_def example_platform_def example_route_def example_request_def
  example_params_def example_dynamic_def example_client_def example_spec_def
  example_config_def example_relative_def example_error_fn_def example_output_fn_def
  example_url_fn_def example_headers_fn_def

lemmas make_defs =
  make_def make_request_def make_client_def make_url_def make_bodyJson_def
  getHeaders_def getError_def getResponse_def parseResponse_def typeof_Schema_def
  HttpClientRequest_make_def setHeaders_def setBody_def HttpClient_filterStatusOk_def

lemma getError_fails: "\<exists>e. getError env getter res = Inl e"
  by (simp add: getError_def split: ErrorFunction.splits sum.splits)

lemma make_after_execute:
  assumes "make_request env spec params = Inr request"
    and "make_client env spec request = Inr res"
  shows "make env spec params =
     (if filterStatusOk spec \<noteq> Some True \<and> error spec \<noteq> None \<and>
         (status res < 200 \<or> status res \<ge> 300)
      then (case getError env (the (error spec)) res of
              Inl e \<Rightarrow> Inl e
            | Inr _ \<Rightarrow> getResponse env (response spec) res)
      else getResponse env (response spec) res)"
  using assms by (simp add: make_def)

text \<open>
  Claim C1. Take a route whose \<^verbatim>\<open>filterStatusOk\<close> is absent or false, and an
  invocation whose request was assembled and answered by the HTTP client with the
  response \<open>res\<close>. If the route has an error descriptor and the status of \<open>res\<close> is below
  200 or at least 300, the invocation takes the error path: it ends as \<open>getError\<close> ends
  on \<open>res\<close>, never with a success. In every other case (a status in 200-299, or no error
  descriptor whatever the status) its outcome is the outcome of \<open>getResponse\<close> on \<open>res\<close>,
  the response resolver applied to the response as it is.
\<close>

theorem C1_classification:
  assumes flag: "filterStatusOk spec = None \<or> filterStatusOk spec = Some False"
    and request: "make_request env spec params = Inr request"
    and executed: "HttpClient_execute env request = Inr res"
  shows "(error spec \<noteq> None \<and> (status res < 200 \<or> status res \<ge> 300) \<longrightarrow>
            (\<exists>e. getError env (the (error spec)) res = Inl e \<and> make env spec params = Inl e))
       \<and> (\<not> (error spec \<noteq> None \<and> (status res < 200 \<or> status res \<ge> 300)) \<longrightarrow>
            make env spec params = getResponse env (response spec) res)"
proof -
  from flag have off: "filterStatusOk spec \<noteq> Some True" by auto
  then have client: "make_client env spec request = Inr res"
    using executed by (simp add: make_client_def)
  note run = make_after_execute [OF request client]
  show ?thesis
  proof (intro conjI impI)
    assume failed: "error spec \<noteq> None \<and> (status res < 200 \<or> status res \<ge> 300)"
    obtain e where e: "getError env (the (error spec)) res = Inl e"
      using getError_fails by blast
    with run off failed
    show "\<exists>e. getError env (the (error spec)) res = Inl e \<and> make env spec params = Inl e"
      by simp
  next
    assume "\<not> (error spec \<noteq> None \<and> (status res < 200 \<or> status res \<ge> 300))"
    with run show "make env spec params = getResponse env (response spec) res"
      by auto
  qed
qed

theorem C1_classification_witness:
  "filterStatusOk (example_route\<lparr>error := Some (ErrorFn example_error_fn)\<rparr>) = None
   \<and> make_request (example_platform (Inr (example_response 404)))
        (example_route\<lparr>error := Some (ErrorFn example_error_fn)\<rparr>) None = Inr example_request
   \<and> HttpClient_execute (example_platform (Inr (example_response 404))) example_request
       = Inr (example_response 404)
   \<and> status (example_response 404) \<ge> 300
   \<and> getError (example_platform (Inr (example_response 404))) (ErrorFn example_error_fn)
         (example_response 404) = Inl (ErrorValue (Num 404))
   \<and> make (example_platform (Inr (example_response 404)))
        (example_route\<lparr>error := Some (ErrorFn example_error_fn)\<rparr>) None
       = Inl (ErrorValue (Num 404))
   \<and> make (example_platform (Inr (example_response 404)))
        (example_route\<lparr>error := None, response := None\<rparr>) None
       = Inr (RawResponse (example_response 404))
   \<and> make (example_platform (Inr (example_response 204)))
        (example_route\<lparr>error := Some (ErrorFn example_error_fn), response := None\<rparr>) None
       = Inr (RawResponse (example_response 204))"
  using C1_classification [of "example_route\<lparr>error := Some (ErrorFn example_error_fn)\<rparr>"
      "example_platform (Inr (example_response 404))" None example_request "example_response 404"]
    C1_classification [of "example_route\<lparr>error := None, response := None\<rparr>"
      "example_platform (Inr (example_response 404))" None example_request "example_response 404"]
    C1_classification
      [of "example_route\<lparr>error := Some (ErrorFn example_error_fn), response := None\<rparr>"
      "example_platform (Inr (example_response 204))" None example_request "example_response 204"]
  by (simp add: example_defs make_defs)

text \<open>
  Claim C2 says that a schema error descriptor makes the compiled route read the body
  as JSON and decode it against the schema. What the code does on a route classified
  as failed (\<^verbatim>\<open>filterStatusOk\<close> not true, an error descriptor present, a status below 200
  or at least 300): with a function descriptor the invocation fails with exactly the
  value of the function on the response, as the claim says; with a schema descriptor the
  schema is called as a function, the call throws, and the invocation dies with that
  \<^verbatim>\<open>TypeError\<close>, without reading or decoding the body. In no case does the invocation
  succeed.
\<close>

theorem C2_error_resolver:
  assumes flag: "filterStatusOk spec \<noteq> Some True"
    and descriptor: "error spec = Some getter"
    and bad: "status res < 200 \<or> status res \<ge> 300"
    and request: "make_request env spec params = Inr request"
    and executed: "HttpClient_execute env request = Inr res"
  shows "(\<forall>f. getter = ErrorFn f \<longrightarrow> make env spec params = Inl (ErrorValue (f res)))
       \<and> (\<forall>schema. getter = ErrorSchema schema \<longrightarrow>
            make env spec params = Inl (Defect TypeError_ClassConstructor))
       \<and> (\<forall>out. make env spec params \<noteq> Inr out)"
proof -
  from flag executed have client: "make_client env spec request = Inr res"
    by (simp add: make_client_def)
  obtain e where e: "getError env getter res = Inl e"
    using getError_fails by blast
  have run: "make env spec params = Inl e"
    using make_after_execute [OF request client] flag descriptor bad e by auto
  have fn: "e = ErrorValue (f res)" if "getter = ErrorFn f" for f
    using e that by (simp add: getError_def)
  have called: "e = Defect TypeError_ClassConstructor" if "getter = ErrorSchema schema" for schema
    using e that by (simp add: getError_def typeof_Schema_def)
  show ?thesis
    using run fn called by simp
qed

theorem C2_error_resolver_witness:
  "filterStatusOk example_route \<noteq> Some True
   \<and> status (example_response 404) \<ge> 300
   \<and> make_request (example_platform (Inr (example_response 404))) example_route None
       = Inr example_request
   \<and> HttpClient_execute (example_platform (Inr (example_response 404))) example_request
       = Inr (example_response 404)
   \<and> error example_route = Some (ErrorSchema (Upto 10))
   \<and> make (example_platform (Inr (example_response 404))) example_route None
       = Inl (Defect TypeError_ClassConstructor)
   \<and> make (example_platform (Inr (example_response 404)))
        (example_route\<lparr>error := Some (ErrorFn example_error_fn)\<rparr>) None
       = Inl (ErrorValue (Num 404))"
  using C2_error_resolver [of example_route "ErrorSchema (Upto 10)" "example_response 404"
      "example_platform (Inr (example_response 404))" None example_request]
    C2_error_resolver [of "example_route\<lparr>error := Some (ErrorFn example_error_fn)\<rparr>"
      "ErrorFn example_error_fn" "example_response 404"
      "example_platform (Inr (example_response 404))" None example_request]
  by (simp add: example_defs make_defs)

text \<open>
  Claim C3 says that a schema response descriptor makes the compiled route read the body
  as JSON and decode it against the schema. What the code does on a route classified as
  OK (the client returned the response \<open>res\<close> and the condition of the error path does
  not hold): with no response descriptor the invocation succeeds with the raw response
  \<open>res\<close> itself, whatever its body (so a 204 response is returned as it is); with a
  function descriptor the outcome is the outcome of the function on \<open>res\<close>; both as the
  claim says. With a schema descriptor the schema is called as a function, the call
  throws, and the invocation dies with that \<^verbatim>\<open>TypeError\<close>, without reading or decoding
  the body.
\<close>

theorem C3_response_resolver:
  assumes request: "make_request env spec params = Inr request"
    and executed: "make_client env spec request = Inr res"
    and ok: "\<not> (filterStatusOk spec \<noteq> Some True \<and> error spec \<noteq> None \<and>
               (status res < 200 \<or> status res \<ge> 300))"
  shows "(response spec = None \<longrightarrow> make env spec params = Inr (RawResponse res))
       \<and> (\<forall>f. response spec = Some (OutputFn f) \<longrightarrow>
            make env spec params =
              (case f res of Inl e \<Rightarrow> Inl (OutputFailure e) | Inr a \<Rightarrow> Inr (Value a)))
       \<and> (\<forall>schema. response spec = Some (OutputSchema schema) \<longrightarrow>
            make env spec params = Inl (Defect TypeError_ClassConstructor))"
proof -
  have run: "make env spec params = getResponse env (response spec) res"
    using make_after_execute [OF request executed] ok by auto
  show ?thesis
    unfolding run by (simp add: getResponse_def typeof_Schema_def)
qed

theorem C3_response_resolver_witness:
  "make_request (example_platform (Inr (example_response 204)))
       (example_route\<lparr>response := None, error := None\<rparr>) None = Inr example_request
   \<and> make_client (example_platform (Inr (example_response 204)))
       (example_route\<lparr>response := None, error := None\<rparr>) example_request
       = Inr (example_response 204)
   \<and> make (example_platform (Inr (example_response 204)))
       (example_route\<lparr>response := None, error := None\<rparr>) None
       = Inr (RawResponse (example_response 204))
   \<and> response example_route = Some (OutputSchema (Upto 10))
   \<and> make (example_platform (Inr (example_response 200))) example_route None
       = Inl (Defect TypeError_ClassConstructor)
   \<and> make (example_platform (Inr (example_response 200)))
       (example_route\<lparr>response := Some (OutputFn example_output_fn)\<rparr>) None
       = Inr (Value (Num 200))"
  using C3_response_resolver [of "example_platform (Inr (example_response 204))"
      "example_route\<lparr>response := None, error := None\<rparr>" None example_request
      "example_response 204"]
    C3_response_resolver [of "example_platform (Inr (example_response 200))"
      example_route None example_request "example_response 200"]
    C3_response_resolver [of "example_platform (Inr (example_response 200))"
      "example_route\<lparr>response := Some (OutputFn example_output_fn)\<rparr>" None
      example_request "example_response 200"]
  by (simp add: example_defs make_defs)

lemma make_request_error_irrelevant:
  "make_request env (spec\<lparr>error := e\<rparr>) params = make_request env spec params"
proof -
  have u: "make_url (spec\<lparr>error := e\<rparr>) params = make_url spec params"
    by (simp add: make_url_def)
  have h: "getHeaders (spec\<lparr>error := e\<rparr>) params = getHeaders spec params"
    by (simp add: getHeaders_def)
  have b: "make_bodyJson env (spec\<lparr>error := e\<rparr>) params = make_bodyJson env spec params"
    by (simp add: make_bodyJson_def)
  have m: "http_method (spec\<lparr>error := e\<rparr>) = http_method spec"
    by simp
  show ?thesis
    unfolding make_request_def u h b m ..
qed

text \<open>
  Claim C4. For a route whose \<^verbatim>\<open>filterStatusOk\<close> is true, the error descriptor is never
  consulted: replacing it by any other descriptor, or by none, leaves the outcome of
  every invocation unchanged, so the error branch of the compiled callable is not
  reachable. A response whose status is outside 200-299 (a 404, say) does not reach the
  classification: the status filter that wraps the HTTP client turns it into a failure
  of the transport.
\<close>

theorem C4_filterStatusOk:
  assumes flag: "filterStatusOk spec = Some True"
  shows "(\<forall>e. make env (spec\<lparr>error := e\<rparr>) params = make env spec params)
       \<and> (\<forall>request res. make_request env spec params = Inr request
              \<and> HttpClient_execute env request = Inr res
              \<and> \<not> (200 \<le> status res \<and> status res < 300) \<longrightarrow>
            make env spec params = Inl (TransportFailure (StatusCodeError res)))"
proof (intro conjI allI impI)
  fix e
  show "make env (spec\<lparr>error := e\<rparr>) params = make env spec params"
    using flag
    by (simp add: make_def make_request_error_irrelevant make_client_def split: sum.splits)
next
  fix request res
  assume "make_request env spec params = Inr request
     \<and> HttpClient_execute env request = Inr res
     \<and> \<not> (200 \<le> status res \<and> status res < 300)"
  then show "make env spec params = Inl (TransportFailure (StatusCodeError res))"
    using flag by (auto simp add: make_def make_client_def HttpClient_filterStatusOk_def)
qed

theorem C4_filterStatusOk_witness:
  "filterStatusOk (example_route\<lparr>filterStatusOk := Some True\<rparr>) = Some True
   \<and> make_request (example_platform (Inr (example_response 404)))
       (example_route\<lparr>filterStatusOk := Some True\<rparr>) None = Inr example_request
   \<and> HttpClient_execute (example_platform (Inr (example_response 404))) example_request
       = Inr (example_response 404)
   \<and> \<not> status (example_response 404) < 300
   \<and> make (example_platform (Inr (example_response 404)))
       (example_route\<lparr>filterStatusOk := Some True\<rparr>) None
       = Inl (TransportFailure (StatusCodeError (example_response 404)))
   \<and> make (example_platform (Inr (example_response 404)))
       (example_route\<lparr>filterStatusOk := Some True, error := None\<rparr>) None
       = make (example_platform (Inr (example_response 404)))
       (example_route\<lparr>filterStatusOk := Some True\<rparr>) None"
  using C4_filterStatusOk [of "example_route\<lparr>filterStatusOk := Some True\<rparr>"
      "example_platform (Inr (example_response 404))" None]
  by (simp add: example_defs make_defs)


text \<open>
  The part of claim C5 that the code keeps: the assembled request carries a body exactly
  when the route declares a body schema and the parameter bag has a \<^verbatim>\<open>body\<close> key.
\<close>

lemma make_request_body_attached:
  assumes "make_request env spec params = Inr request"
  shows "req_body request \<noteq> None \<longleftrightarrow>
           body spec \<noteq> None \<and> (\<exists>p. params = Some p \<and> p_body p \<noteq> None)"
  using assms
  by (auto simp add: make_request_def make_bodyJson_def setBody_def setHeaders_def
      HttpClientRequest_make_def Let_def
      split: sum.splits option.splits UrlFunction.splits HeadersFunction.splits)

text \<open>
  Whatever \<^verbatim>\<open>Schema.encode\<close> answers, the only failure of the body step is the failure of
  \<^verbatim>\<open>HttpBody.json\<close>.
\<close>

lemma make_bodyJson_failure:
  "make_bodyJson env spec params = Inl e \<Longrightarrow> \<exists>x. e = HttpBodyError x"
  by (auto simp add: make_bodyJson_def split: option.splits sum.splits)

text \<open>
  Claim C5 says that the body value is validated and encoded against the schema, and that
  a validation failure fails the invocation with an EncodeError before any request is
  sent. The compiled callable does not run the effect of \<^verbatim>\<open>Schema.encode\<close>: it hands
  that effect to \<^verbatim>\<open>HttpBody.json\<close> as the value to serialise. On the concrete platform,
  schema \<open>Upto 5\<close> rejects the value 9; the route with that body schema and no response or
  error descriptor, called with the body 9, still assembles a request, whose body is the
  serialised failed effect, sends it, and succeeds with the raw response.
\<close>

theorem C5_encode_failure_not_raised:
  "Schema_encode (example_platform (Inr (example_response 201))) (Upto 5) (Num 9)
       = Inl ''ParseError''
   \<and> body (example_route\<lparr>response := None, error := None\<rparr>) = Some (Upto 5)
   \<and> p_body example_params = Some (Num 9)
   \<and> make_request (example_platform (Inr (example_response 201)))
        (example_route\<lparr>response := None, error := None\<rparr>) (Some example_params)
       = Inr (example_request\<lparr>req_body := Some (Inl ''ParseError'')\<rparr>)
   \<and> make (example_platform (Inr (example_response 201)))
        (example_route\<lparr>response := None, error := None\<rparr>) (Some example_params)
       = Inr (RawResponse (example_response 201))"
  by (simp add: example_defs make_defs)

section \<open>Properties of the client\<close>

text \<open>
  Claim C6. The route that \<^verbatim>\<open>client.get\<close>, \<^verbatim>\<open>post\<close>, \<^verbatim>\<open>put\<close> and \<^verbatim>\<open>del\<close> compile
  is the route of the free constructor with two fields replaced: \<^verbatim>\<open>headers\<close> is the
  client's stored descriptor when the per-call spec has no \<^verbatim>\<open>headers\<close> key and the
  spec's own value when it has one, and likewise, independently, for \<^verbatim>\<open>error\<close>. Every
  other field is the one of the per-call spec, so nothing else comes from the client,
  and a client without defaults compiles the same routes as the free constructors.
\<close>

theorem C6_client_defaults:
  "Client_Route c m spec =
     (new_Route m spec)
       \<lparr>headers := (case spec_headers spec of None \<Rightarrow> client_headers c | Some hs \<Rightarrow> hs),
        error := (case spec_error spec of None \<Rightarrow> client_error c | Some e \<Rightarrow> e)\<rparr>
   \<and> Client_get env c spec = make env (Client_Route c ''GET'' spec)
   \<and> Client_post env c spec = make env (Client_Route c ''POST'' spec)
   \<and> Client_put env c spec = make env (Client_Route c ''PUT'' spec)
   \<and> Client_del env c spec = make env (Client_Route c ''DELETE'' spec)
   \<and> Client_get env \<lparr>client_headers = None, client_error = None\<rparr> spec = get env spec
   \<and> Client_post env \<lparr>client_headers = None, client_error = None\<rparr> spec = post env spec
   \<and> Client_put env \<lparr>client_headers = None, client_error = None\<rparr> spec = put env spec
   \<and> Client_del env \<lparr>client_headers = None, client_error = None\<rparr> spec = del env spec"
  by (simp add: Client_Route_def new_Route_def spread_def Client_get_def Client_post_def
      Client_put_def Client_del_def get_def post_def put_def del_def split: option.splits)

theorem C6_client_defaults_witness:
  "headers (Client_Route example_client ''GET'' example_spec)
       = Some (HeadersValue [(''X-API-Version'', ''v1'')])
   \<and> error (Client_Route example_client ''GET'' example_spec) = Some (ErrorSchema (Upto 10))
   \<and> headers (Client_Route example_client ''GET''
         (example_spec\<lparr>spec_error := Some (Some (ErrorSchema (Upto 3)))\<rparr>))
       = Some (HeadersValue [(''X-API-Version'', ''v1'')])
   \<and> error (Client_Route example_client ''GET''
         (example_spec\<lparr>spec_error := Some (Some (ErrorSchema (Upto 3)))\<rparr>))
       = Some (ErrorSchema (Upto 3))
   \<and> url (Client_Route example_client ''GET'' example_spec) = UrlString ''/todos''
   \<and> response (Client_Route example_client ''GET'' example_spec) = None"
  using C6_client_defaults [of example_client "''GET''" example_spec
      "example_platform (Inr (example_response 200))"]
    C6_client_defaults [of example_client "''GET''"
      "example_spec\<lparr>spec_error := Some (Some (ErrorSchema (Upto 3)))\<rparr>"
      "example_platform (Inr (example_response 200))"]
  by (simp add: example_defs new_Route_def spread_def)

text \<open>
  Claim C10. When the per-call spec has a \<^verbatim>\<open>headers\<close> key whose value is \<^verbatim>\<open>undefined\<close>,
  the compiled route has no headers descriptor, whatever the client's default, and
  resolves no headers; when it has an \<^verbatim>\<open>error\<close> key whose value is \<^verbatim>\<open>undefined\<close>, the
  route has no error descriptor and every response goes to the response resolver. When
  the key is absent the route has the client's default instead.
\<close>

theorem C10_explicit_undefined:
  "(spec_headers spec = Some None \<longrightarrow>
      headers (Client_Route c m spec) = None
      \<and> getHeaders (Client_Route c m spec) params = Inr None)
   \<and> (spec_error spec = Some None \<longrightarrow>
      error (Client_Route c m spec) = None
      \<and> (\<forall>request res. make_request env (Client_Route c m spec) params = Inr request
             \<and> make_client env (Client_Route c m spec) request = Inr res \<longrightarrow>
           make env (Client_Route c m spec) params = getResponse env (spec_response spec) res))
   \<and> (spec_headers spec = None \<longrightarrow> headers (Client_Route c m spec) = client_headers c)
   \<and> (spec_error spec = None \<longrightarrow> error (Client_Route c m spec) = client_error c)"
proof (intro conjI impI allI)
  assume "spec_headers spec = Some None"
  then show h: "headers (Client_Route c m spec) = None"
    by (simp add: Client_Route_def spread_def)
  then show "getHeaders (Client_Route c m spec) params = Inr None"
    by (simp add: getHeaders_def)
next
  assume "spec_error spec = Some None"
  then show e: "error (Client_Route c m spec) = None"
    by (simp add: Client_Route_def spread_def)
  fix request res
  assume "make_request env (Client_Route c m spec) params = Inr request
    \<and> make_client env (Client_Route c m spec) request = Inr res"
  then have "make env (Client_Route c m spec) params
      = getResponse env (response (Client_Route c m spec)) res"
    using make_after_execute [of env "Client_Route c m spec" params request res] e by simp
  then show "make env (Client_Route c m spec) params = getResponse env (spec_response spec) res"
    by (simp add: Client_Route_def)
next
  assume "spec_headers spec = None"
  then show "headers (Client_Route c m spec) = client_headers c"
    by (simp add: Client_Route_def spread_def)
next
  assume "spec_error spec = None"
  then show "error (Client_Route c m spec) = client_error c"
    by (simp add: Client_Route_def spread_def)
qed

theorem C10_explicit_undefined_witness:
  "client_headers example_client \<noteq> None \<and> client_error example_client \<noteq> None
   \<and> headers (Client_Route example_client ''GET''
        (example_spec\<lparr>spec_headers := Some None, spec_error := Some None\<rparr>)) = None
   \<and> error (Client_Route example_client ''GET''
        (example_spec\<lparr>spec_headers := Some None, spec_error := Some None\<rparr>)) = None
   \<and> Client_get (example_platform (Inr (example_response 404))) example_client
        (example_spec\<lparr>spec_headers := Some None, spec_error := Some None\<rparr>) None
       = Inr (RawResponse (example_response 404))
   \<and> headers (Client_Route example_client ''GET'' example_spec) = client_headers example_client
   \<and> error (Client_Route example_client ''GET'' example_spec) = client_error example_client
   \<and> Client_get (example_platform (Inr (example_response 404)))
        (example_client\<lparr>client_error := Some (ErrorFn example_error_fn)\<rparr>)
        (example_spec\<lparr>spec_error := Some None\<rparr>) None
       = Inr (RawResponse (example_response 404))
   \<and> Client_get (example_platform (Inr (example_response 404)))
        (example_client\<lparr>client_error := Some (ErrorFn example_error_fn)\<rparr>) example_spec None
       = Inl (ErrorValue (Num 404))"
  using C10_explicit_undefined
      [of "example_spec\<lparr>spec_headers := Some None, spec_error := Some None\<rparr>"
        example_client "''GET''" None "example_platform (Inr (example_response 404))"]
    C10_explicit_undefined [of example_spec example_client "''GET''" None
      "example_platform (Inr (example_response 404))"]
    C10_explicit_undefined [of "example_spec\<lparr>spec_error := Some None\<rparr>"
      "example_client\<lparr>client_error := Some (ErrorFn example_error_fn)\<rparr>" "''GET''" None
      "example_platform (Inr (example_response 404))"]
  by (simp add: example_defs make_defs Client_get_def Client_Route_def spread_def)

section \<open>Properties of function descriptors\<close>

lemma make_request_url:
  "make_request env spec params = Inr request \<Longrightarrow> make_url spec params = UrlString (req_url request)"
  by (auto simp add: make_request_def setBody_def setHeaders_def HttpClientRequest_make_def
      Let_def split: sum.splits option.splits UrlFunction.splits HeadersFunction.splits)

lemma make_request_function_headers:
  "make_request env spec params = Inr request \<Longrightarrow>
   getHeaders spec params = Inr (Some (HeadersFn g)) \<Longrightarrow> req_headers request = None"
  by (auto simp add: make_request_def setBody_def setHeaders_def HttpClientRequest_make_def
      Let_def split: sum.splits option.splits UrlFunction.splits)

lemma make_needs_request:
  "make env spec params = Inr out \<Longrightarrow> \<exists>request. make_request env spec params = Inr request"
  by (auto simp add: make_def split: sum.splits)

text \<open>
  Claim C9 says that a function descriptor invoked without its parameter ends up as the
  URL, or as the header set, of the request. The function value is handed to the
  constructors of the request, but no request carries it. The route whose URL is a
  function, called without argument, assembles no request: the constructor throws on the
  function value and the invocation dies. The route whose headers are a function, called
  without argument, assembles a request with no headers.
\<close>

theorem C9_no_request_carries_function_counterexample:
  "url example_dynamic = UrlFn example_url_fn
   \<and> make_url example_dynamic None = UrlFn example_url_fn
   \<and> make_request (example_platform (Inr (example_response 200))) example_dynamic None
       = Inl (Defect TypeError_InvalidURL)
   \<and> make (example_platform (Inr (example_response 200))) example_dynamic None
       = Inl (Defect TypeError_InvalidURL)
   \<and> getHeaders (example_dynamic\<lparr>url := UrlString ''/todos''\<rparr>) None
       = Inr (Some (HeadersFn example_headers_fn))
   \<and> make_request (example_platform (Inr (example_response 200)))
        (example_dynamic\<lparr>url := UrlString ''/todos''\<rparr>) None
       = Inr (example_request\<lparr>req_method := ''GET''\<rparr>)
   \<and> req_headers (example_request\<lparr>req_method := ''GET''\<rparr>) = None"
  by (simp add: example_dynamic_def example_request_def example_platform_def make_defs)

text \<open>
  Claim C9, amended. When the URL descriptor is a function and the compiled callable is
  invoked without a parameter bag, or with a bag that has no \<^verbatim>\<open>url\<close> key, the function
  is not called and the function value itself is what the callable hands to the request
  constructor as the URL; the constructor throws on it, so no request is assembled, the
  invocation never succeeds, and once headers and body have resolved it dies with the
  "Invalid URL" \<^verbatim>\<open>TypeError\<close>. When the headers descriptor is a function and the bag is
  absent or has no \<^verbatim>\<open>headers\<close> key, the function is not called and the function value
  itself is what \<open>getHeaders\<close> resolves to and what is handed to \<open>setHeaders\<close>, which
  copies no header from it: an assembled request carries no headers.
\<close>

theorem C9_function_descriptor_without_parameter:
  "(url spec = UrlFn f \<and> (params = None \<or> (\<exists>p. params = Some p \<and> p_url p = None)) \<longrightarrow>
      make_url spec params = UrlFn f
      \<and> (\<forall>request. make_request env spec params \<noteq> Inr request)
      \<and> (\<forall>out. make env spec params \<noteq> Inr out)
      \<and> (\<forall>hs b. getHeaders spec params = Inr hs \<and> make_bodyJson env spec params = Inr b \<longrightarrow>
            make env spec params = Inl (Defect TypeError_InvalidURL)))
   \<and> (headers spec = Some (HeadersFn g)
        \<and> (params = None \<or> (\<exists>p. params = Some p \<and> p_headers p = None)) \<longrightarrow>
      getHeaders spec params = Inr (Some (HeadersFn g))
      \<and> (\<forall>request. make_request env spec params = Inr request \<longrightarrow> req_headers request = None))"
proof (intro conjI impI allI)
  assume a: "url spec = UrlFn f \<and> (params = None \<or> (\<exists>p. params = Some p \<and> p_url p = None))"
  then show u: "make_url spec params = UrlFn f"
    by (auto simp add: make_url_def)
  show none: "make_request env spec params \<noteq> Inr request" for request
    using u make_request_url [of env spec params request] by auto
  show "make env spec params \<noteq> Inr out" for out
    using none make_needs_request [of env spec params out] by blast
  fix hs b
  assume "getHeaders spec params = Inr hs \<and> make_bodyJson env spec params = Inr b"
  then show "make env spec params = Inl (Defect TypeError_InvalidURL)"
    using u by (simp add: make_def make_request_def HttpClientRequest_make_def)
next
  assume "headers spec = Some (HeadersFn g)
    \<and> (params = None \<or> (\<exists>p. params = Some p \<and> p_headers p = None))"
  then show h: "getHeaders spec params = Inr (Some (HeadersFn g))"
    by (auto simp add: getHeaders_def)
  fix request
  assume "make_request env spec params = Inr request"
  then show "req_headers request = None"
    using h make_request_function_headers by blast
qed

theorem C9_function_descriptor_without_parameter_witness:
  "url example_dynamic = UrlFn example_url_fn
   \<and> headers example_dynamic = Some (HeadersFn example_headers_fn)
   \<and> make_url example_dynamic None = UrlFn example_url_fn
   \<and> getHeaders example_dynamic None = Inr (Some (HeadersFn example_headers_fn))
   \<and> make_bodyJson (example_platform (Inr (example_response 200))) example_dynamic None = Inr None
   \<and> make (example_platform (Inr (example_response 200))) example_dynamic None
       = Inl (Defect TypeError_InvalidURL)
   \<and> make_request (example_platform (Inr (example_response 200)))
        (example_dynamic\<lparr>url := UrlString ''/todos''\<rparr>) None
       = Inr (example_request\<lparr>req_method := ''GET''\<rparr>)
   \<and> req_headers (example_request\<lparr>req_method := ''GET''\<rparr>) = None"
  using C9_function_descriptor_without_parameter [of example_dynamic example_url_fn None
      "example_platform (Inr (example_response 200))" example_headers_fn]
    C9_function_descriptor_without_parameter
      [of "example_dynamic\<lparr>url := UrlString ''/todos''\<rparr>" example_url_fn None
        "example_platform (Inr (example_response 200))" example_headers_fn]
  by (simp add: example_dynamic_def example_request_def example_platform_def make_defs)

section \<open>Properties of the request rewriter\<close>

lemma layer_rewrite: "layer config client req = client (rewrite config req)"
  by (simp add: layer_def mapRequestInput_def rewrite_def)

text \<open>
  Claim C7 says that the bearer header is set exactly when \<^verbatim>\<open>accessToken\<close> is defined.
  The rule tests the truthiness of the token, so a configuration whose token is the
  empty string, which is defined, leaves the request without the header.
\<close>

theorem C7_defined_empty_token_counterexample:
  "accessToken \<lparr>config_url = ''https://api.example.com'', accessToken = Some ''''\<rparr> = Some ''''
   \<and> req_headers (rewrite \<lparr>config_url = ''https://api.example.com'', accessToken = Some ''''\<rparr>
         example_relative) ''Authorization'' = None
   \<and> req_headers (bearerTokenRule
         \<lparr>config_url = ''https://api.example.com'', accessToken = Some ''''\<rparr>
         example_relative) = req_headers example_relative"
  by (simp add: rewrite_def baseUrlRule_def bearerTokenRule_def setUrl_def startsWith_def
      example_relative_def)

text \<open>
  Claim C7, amended. For every request and every configuration, the rewriter prepends
  the configured base URL to the request URL exactly when that URL starts with \<open>/\<close>, and
  sets the header \<^verbatim>\<open>Authorization: Bearer <token>\<close> exactly when \<^verbatim>\<open>accessToken\<close> is defined
  and not the empty string; otherwise the URL, respectively the headers, are unchanged,
  and nothing else of the request changes. The client that \<^verbatim>\<open>layer\<close> provides sends the
  rewritten request to the client it wraps.
\<close>

theorem C7_rewrite:
  "rewrite config req =
     req\<lparr>req_url := (if startsWith (req_url req) CHR ''/'' then config_url config @ req_url req
                      else req_url req),
         req_headers := (case accessToken config of
                           None \<Rightarrow> req_headers req
                         | Some token \<Rightarrow>
                             if token = [] then req_headers req
                             else (req_headers req)(''Authorization'' \<mapsto> ''Bearer '' @ token))\<rparr>
   \<and> layer config client req = client (rewrite config req)"
  by (simp add: layer_rewrite)
     (simp add: rewrite_def baseUrlRule_def bearerTokenRule_def setUrl_def bearerToken_def
      split: option.splits)

theorem C7_rewrite_witness:
  "req_url (rewrite example_config example_relative) = ''https://api.example.com/todos/42''
   \<and> req_headers (rewrite example_config example_relative) ''Authorization'' = Some ''Bearer ey''
   \<and> rewrite (example_config\<lparr>accessToken := None\<rparr>)
        (example_relative\<lparr>req_url := ''https://other.example.com/data''\<rparr>)
       = example_relative\<lparr>req_url := ''https://other.example.com/data''\<rparr>
   \<and> rewrite (example_config\<lparr>accessToken := Some ''''\<rparr>)
        (example_relative\<lparr>req_url := ''https://other.example.com/data''\<rparr>)
       = example_relative\<lparr>req_url := ''https://other.example.com/data''\<rparr>"
  using C7_rewrite [of example_config example_relative id]
    C7_rewrite [of "example_config\<lparr>accessToken := None\<rparr>"
      "example_relative\<lparr>req_url := ''https://other.example.com/data''\<rparr>" id]
    C7_rewrite [of "example_config\<lparr>accessToken := Some ''''\<rparr>"
      "example_relative\<lparr>req_url := ''https://other.example.com/data''\<rparr>" id]
  by (simp add: example_config_def example_relative_def startsWith_def)

text \<open>
  Claim C8. The two rules of the rewriter commute: applied in either order to any
  request, under any configuration, they give the same request. The whole rewriting is
  idempotent on every request whose URL does not start with \<open>/\<close>, in particular on its
  own output for such a request, where the bearer header is already set.
\<close>

theorem C8_rules_commute:
  "baseUrlRule config (bearerTokenRule config req) = bearerTokenRule config (baseUrlRule config req)
   \<and> (\<not> startsWith (req_url req) CHR ''/'' \<longrightarrow>
        rewrite config (rewrite config req) = rewrite config req)"
  by (simp add: rewrite_def baseUrlRule_def bearerTokenRule_def setUrl_def bearerToken_def
      split: option.splits)

theorem C8_rules_commute_witness:
  "baseUrlRule example_config (bearerTokenRule example_config example_relative)
     = bearerTokenRule example_config (baseUrlRule example_config example_relative)
   \<and> \<not> startsWith (req_url (rewrite example_config example_relative)) CHR ''/''
   \<and> req_headers (rewrite example_config example_relative) ''Authorization'' = Some ''Bearer ey''
   \<and> rewrite example_config (rewrite example_config (rewrite example_config example_relative))
       = rewrite example_config (rewrite example_config example_relative)"
  using C8_rules_commute [of example_config example_relative]
    C8_rules_commute [of example_config "rewrite example_config example_relative"]
  by (simp add: example_config_def example_relative_def startsWith_def rewrite_def
      baseUrlRule_def bearerTokenRule_def setUrl_def bearerToken_def)

end
